theory Spec2Isabelle
  imports Complex_Main
begin

section \<open>The batch normalization layer of \<^verbatim>\<open>src/batch_norm.py\<close>\<close>

text \<open>
  The file defines one class, \<^verbatim>\<open>BatchNormalizedLayer\<close>, on top of numpy. The model
  below follows the class method by method.

  Numbers. A numpy \<^verbatim>\<open>float64\<close> is idealised as a \<^typ>\<open>real\<close>: rounding and overflow
  are not modelled, and the literal \<^verbatim>\<open>1e-8\<close> is the real \<open>1 / 10 ^ 8\<close>. Where numpy
  would store NaN or Inf (a zero denominator, the square root of a negative number, the
  mean of an empty axis) the model stops with the outcome \<open>NonFinite\<close>; numpy itself only
  warns there and carries on, and what the code computes from such values is not modelled.

  Arrays. A one-dimensional array is a list, a two-dimensional array of shape \<open>(N, D)\<close>
  is the list of its \<open>N\<close> rows. A numpy array is rectangular by construction; the
  predicate \<open>is_matrix\<close> says so for a list of rows. The array of shape \<open>(0, D)\<close> is the
  empty list, which does not record \<open>D\<close>.
\<close>

subsection \<open>Outcomes\<close>

text \<open>
  The exceptions of Python that the methods can raise, and \<open>NonFinite\<close> as above. The
  last two constructors are the errors that the specification names
  (a configuration error, a "not initialized" error); no line of the source raises them.
\<close>

datatype error =
    AttributeError
  | ValueError
  | IndexError
  | TypeError
  | ZeroDivisionError
  | NonFinite
  | ConfigurationError
  | NotInitializedError

definition ebind :: "error + 'a \<Rightarrow> ('a \<Rightarrow> error + 'b) \<Rightarrow> error + 'b" where
  "ebind m f = (case m of Inl e \<Rightarrow> Inl e | Inr x \<Rightarrow> f x)"

fun collect :: "(error + 'a) list \<Rightarrow> error + 'a list" where
  "collect [] = Inr []"
| "collect (x # xs) = ebind x (\<lambda>y. ebind (collect xs) (\<lambda>ys. Inr (y # ys)))"

subsection \<open>The numpy operations the class uses\<close>

type_synonym vec = "real list"
type_synonym mat = "real list list"

definition is_matrix :: "nat \<Rightarrow> nat \<Rightarrow> 'a list list \<Rightarrow> bool" where
  "is_matrix n d m \<longleftrightarrow> length m = n \<and> list_all (\<lambda>r. length r = d) m"

text \<open>
  Broadcasting along one axis: two axes of the same length are paired off, an axis of
  length one is stretched over the other, anything else is numpy's
  \<^verbatim>\<open>ValueError: operands could not be broadcast together\<close>.
\<close>

definition bc_list :: "'a list \<Rightarrow> 'b list \<Rightarrow> error + ('a \<times> 'b) list" where
  "bc_list xs ys =
     (if length xs = length ys then Inr (zip xs ys)
      else if length xs = 1 then Inr (map (\<lambda>y. (hd xs, y)) ys)
      else if length ys = 1 then Inr (map (\<lambda>x. (x, hd ys)) xs)
      else Inl ValueError)"

text \<open>Broadcasting of two-dimensional arrays: the rows first, then within each pair of rows.\<close>

definition bc_mat :: "'a list list \<Rightarrow> 'b list list \<Rightarrow> error + ('a \<times> 'b) list list" where
  "bc_mat a b = ebind (bc_list a b) (\<lambda>rs. collect (map (\<lambda>(r, s). bc_list r s) rs))"

text \<open>
  Elementwise binary operations. In an operation of a matrix and a vector numpy reads the
  vector of shape \<open>(D,)\<close> as the matrix of shape \<open>(1, D)\<close>.
\<close>

definition ew_vv :: "(real \<Rightarrow> real \<Rightarrow> real) \<Rightarrow> vec \<Rightarrow> vec \<Rightarrow> error + vec" where
  "ew_vv f a b = ebind (bc_list a b) (\<lambda>ps. Inr (map (\<lambda>(x, y). f x y) ps))"

definition ew_mm :: "(real \<Rightarrow> real \<Rightarrow> real) \<Rightarrow> mat \<Rightarrow> mat \<Rightarrow> error + mat" where
  "ew_mm f a b = ebind (bc_mat a b) (\<lambda>ps. Inr (map (map (\<lambda>(x, y). f x y)) ps))"

definition ew_mv :: "(real \<Rightarrow> real \<Rightarrow> real) \<Rightarrow> mat \<Rightarrow> vec \<Rightarrow> error + mat" where
  "ew_mv f a v = ew_mm f a [v]"

definition ew_vm :: "(real \<Rightarrow> real \<Rightarrow> real) \<Rightarrow> vec \<Rightarrow> mat \<Rightarrow> error + mat" where
  "ew_vm f v b = ew_mm f [v] b"

text \<open>\<^verbatim>\<open>np.divide\<close>: a zero among the denominators gives Inf or NaN.\<close>

definition np_divide_vv :: "vec \<Rightarrow> vec \<Rightarrow> error + vec" where
  "np_divide_vv a b =
     ebind (bc_list a b) (\<lambda>ps.
       if list_ex (\<lambda>(x, y). y = 0) ps then Inl NonFinite
       else Inr (map (\<lambda>(x, y). x / y) ps))"

definition np_divide_mm :: "mat \<Rightarrow> mat \<Rightarrow> error + mat" where
  "np_divide_mm a b =
     ebind (bc_mat a b) (\<lambda>ps.
       if list_ex (list_ex (\<lambda>(x, y). y = 0)) ps then Inl NonFinite
       else Inr (map (map (\<lambda>(x, y). x / y)) ps))"

definition np_divide_mv :: "mat \<Rightarrow> vec \<Rightarrow> error + mat" where
  "np_divide_mv a v = np_divide_mm a [v]"

text \<open>\<^verbatim>\<open>np.sqrt\<close>: the root of a negative number is NaN. \<^verbatim>\<open>np.square\<close> is total.\<close>

definition np_sqrt :: "vec \<Rightarrow> error + vec" where
  "np_sqrt v = (if list_ex (\<lambda>x. x < 0) v then Inl NonFinite else Inr (map sqrt v))"

definition np_square :: "vec \<Rightarrow> vec" where
  "np_square v = map (\<lambda>x. x * x) v"

text \<open>
  Reductions along axis 0 (over the batch). \<open>ncols\<close> reads the number of columns off the
  first row. The mean of an empty batch is NaN in every column.
\<close>

definition ncols :: "'a list list \<Rightarrow> nat" where
  "ncols m = (case m of [] \<Rightarrow> 0 | r # _ \<Rightarrow> length r)"

definition sum_axis0 :: "mat \<Rightarrow> vec" where
  "sum_axis0 m = map (\<lambda>j. sum_list (map (\<lambda>r. r ! j) m)) [0..<ncols m]"

definition mean_axis0 :: "mat \<Rightarrow> error + vec" where
  "mean_axis0 m =
     (if length m = 0 then Inl NonFinite
      else Inr (map (\<lambda>s. s / real (length m)) (sum_axis0 m)))"

text \<open>\<^verbatim>\<open>np.var\<close> with its default \<^verbatim>\<open>ddof=0\<close>: the mean of the squared deviations from the mean.\<close>

definition var_axis0 :: "mat \<Rightarrow> error + vec" where
  "var_axis0 m =
     ebind (mean_axis0 m) (\<lambda>mu.
     ebind (ew_mv (-) m mu) (\<lambda>d.
     mean_axis0 (map (map (\<lambda>x. x * x)) d)))"

text \<open>Python's \<^verbatim>\<open>1.0 / N\<close> for an integer \<open>N\<close> read off a shape.\<close>

definition py_div :: "real \<Rightarrow> nat \<Rightarrow> error + real" where
  "py_div x n = (if n = 0 then Inl ZeroDivisionError else Inr (x / real n))"

subsection \<open>The layer\<close>

text \<open>
  \<^verbatim>\<open>self.cache\<close> is the Python list \<^verbatim>\<open>[]\<close> after construction and the list
  \<^verbatim>\<open>[std, diff, uhat]\<close> after \<^verbatim>\<open>fprop\<close>; nothing else is ever assigned to it.

  \<^verbatim>\<open>self.gamma\<close> and \<^verbatim>\<open>self.beta\<close> are attributes that \<^verbatim>\<open>__init__\<close> does not
  create (line 17 is a comment standing for an initialization routine): \<open>None\<close> is the
  missing attribute.
\<close>

datatype cache = Empty | Filled vec mat mat

record layer =
  input_dim :: int
  output_dim :: int
  gamma :: "vec option"
  beta :: "vec option"
  cache :: cache

text \<open>\<^verbatim>\<open>__init__\<close>, lines 7 to 18. The argument \<^verbatim>\<open>output_dim\<close> is not read.\<close>

definition init :: "int \<Rightarrow> int \<Rightarrow> error + layer" where
  "init input_dim' output_dim' =
     Inr \<lparr>input_dim = input_dim', output_dim = input_dim',
          gamma = None, beta = None, cache = Empty\<rparr>"

text \<open>
  \<^verbatim>\<open>fprop\<close>, lines 32 to 36: the values that line 37 stores in the cache. The quotient of
  line 36 subtracts the mean again and divides by \<^verbatim>\<open>np.sqrt(std)\<close>.
\<close>

definition fprop_cache :: "mat \<Rightarrow> error + (vec \<times> mat \<times> mat)" where
  "fprop_cache inputs =
     ebind (mean_axis0 inputs) (\<lambda>mu.
     ebind (var_axis0 inputs) (\<lambda>sigma2.
     ebind (np_sqrt (map (\<lambda>s. s + 1 / 10 ^ 8) sigma2)) (\<lambda>std.
     ebind (ew_mv (-) inputs mu) (\<lambda>diff.
     ebind (ew_mv (-) inputs mu) (\<lambda>num.
     ebind (np_sqrt std) (\<lambda>den.
     ebind (np_divide_mv num den) (\<lambda>uhat.
     Inr (std, diff, uhat))))))))"

text \<open>
  Line 38, \<^verbatim>\<open>self.gamma * uhat + self.beta\<close>, evaluated from left to right: the
  attribute \<^verbatim>\<open>gamma\<close>, the product, the attribute \<^verbatim>\<open>beta\<close>, the sum.
\<close>

definition fprop_output :: "layer \<Rightarrow> mat \<Rightarrow> error + mat" where
  "fprop_output l uhat =
     (case gamma l of
        None \<Rightarrow> Inl AttributeError
      | Some g \<Rightarrow>
          ebind (ew_vm (*) g uhat) (\<lambda>gu.
            case beta l of
              None \<Rightarrow> Inl AttributeError
            | Some b \<Rightarrow> ew_mv (+) gu b))"

text \<open>
  \<^verbatim>\<open>fprop\<close> returns its result and the layer it leaves behind: the cache is written on
  line 37, before line 38 can raise.
\<close>

definition fprop :: "layer \<Rightarrow> mat \<Rightarrow> (error + mat) \<times> layer" where
  "fprop l inputs =
     (case fprop_cache inputs of
        Inl e \<Rightarrow> (Inl e, l)
      | Inr (std, diff, uhat) \<Rightarrow>
          (fprop_output l uhat, l\<lparr>cache := Filled std diff uhat\<rparr>))"

text \<open>
  \<^verbatim>\<open>bprop\<close>, lines 58 to 65. Line 58 unpacks the cache into three names, a
  \<^verbatim>\<open>ValueError\<close> when it is empty. \<^verbatim>\<open>inputs\<close> is read for its number of rows only,
  \<^verbatim>\<open>outputs\<close> is not read. Line 64 is \<^verbatim>\<open>(t1 + ((2 * dvar) * diff) * (1.0 / N)) +
  dmu * (1.0 / N)\<close>, evaluated from left to right. The layer is not changed.
\<close>

definition bprop :: "layer \<Rightarrow> mat \<Rightarrow> mat \<Rightarrow> mat \<Rightarrow> error + mat" where
  "bprop l inputs outputs grads_wrt_outputs =
     (case cache l of
        Empty \<Rightarrow> Inl ValueError
      | Filled std diff uhat \<Rightarrow>
          (let N = length inputs in
           case gamma l of
             None \<Rightarrow> Inl AttributeError
           | Some g \<Rightarrow>
               ebind (ew_mv (*) grads_wrt_outputs g) (\<lambda>duhat.
               ebind (ew_mm (*) duhat uhat) (\<lambda>du.
               ebind (np_divide_vv (sum_axis0 du) (np_square std)) (\<lambda>q.
               let dvar = map (\<lambda>x. - (1 / 2) * x) q in
               ebind (np_divide_vv (sum_axis0 duhat) std) (\<lambda>q'.
               let dmu = map (\<lambda>x. - 1 * x) q' in
               ebind (np_divide_mv duhat std) (\<lambda>t1.
               ebind (ew_vm (*) (map (\<lambda>x. 2 * x) dvar) diff) (\<lambda>t2.
               ebind (py_div 1 N) (\<lambda>c.
               ebind (ew_mm (+) t1 (map (map (\<lambda>x. x * c)) t2)) (\<lambda>s.
               ebind (py_div 1 N) (\<lambda>c'.
               ew_mv (+) s (map (\<lambda>x. x * c') dmu))))))))))))"

text \<open>
  \<^verbatim>\<open>grads_wrt_params\<close>, lines 79 to 81. \<^verbatim>\<open>inputs\<close> is not read. \<^verbatim>\<open>self.cache[2]\<close> is
  an \<^verbatim>\<open>IndexError\<close> on the empty cache.
\<close>

definition grads_wrt_params :: "layer \<Rightarrow> mat \<Rightarrow> mat \<Rightarrow> error + vec list" where
  "grads_wrt_params l inputs grads_wrt_outputs =
     (let grads_wrt_beta = sum_axis0 grads_wrt_outputs in
      case cache l of
        Empty \<Rightarrow> Inl IndexError
      | Filled std diff uhat \<Rightarrow>
          ebind (ew_mm (*) grads_wrt_outputs uhat) (\<lambda>p.
          Inr [sum_axis0 p, grads_wrt_beta]))"

text \<open>
  \<^verbatim>\<open>params_penalty\<close>, lines 88 and 89. (\<^verbatim>\<open>__repr__\<close>, lines 102 to 104, formats the two
  dimensions into a string and assigns nothing; it is left out.)
\<close>

definition params_penalty :: "layer \<Rightarrow> int" where
  "params_penalty l = 0"

text \<open>
  The class body binds the name \<^verbatim>\<open>params\<close> twice, with no decorator on either
  definition. \<open>params_first\<close> is the body of lines 93 to 95 and \<open>params_second\<close> the body
  of lines 98 to 100, which assigns \<^verbatim>\<open>gamma\<close> before it reads \<^verbatim>\<open>values[1]\<close>.
\<close>

definition params_first :: "layer \<Rightarrow> error + vec list" where
  "params_first l =
     (case gamma l of
        None \<Rightarrow> Inl AttributeError
      | Some g \<Rightarrow> (case beta l of None \<Rightarrow> Inl AttributeError | Some b \<Rightarrow> Inr [g, b]))"

definition params_second :: "layer \<Rightarrow> vec list \<Rightarrow> (error + unit) \<times> layer" where
  "params_second l values =
     (case values of
        [] \<Rightarrow> (Inl IndexError, l)
      | [g] \<Rightarrow> (Inl IndexError, l\<lparr>gamma := Some g\<rparr>)
      | g # b # _ \<Rightarrow> (Inr (), l\<lparr>gamma := Some g, beta := Some b\<rparr>))"

text \<open>
  The attribute \<^verbatim>\<open>params\<close> of an instance is the second definition: the later
  \<^verbatim>\<open>def\<close> replaces the earlier one in the class namespace. A call
  \<^verbatim>\<open>layer.params(a1, ..., ak)\<close> is modelled with the list of its positional arguments;
  any number of them but one is Python's \<^verbatim>\<open>TypeError\<close>.
\<close>

definition params :: "layer \<Rightarrow> vec list list \<Rightarrow> (error + unit) \<times> layer" where
  "params l args =
     (case args of
        [values] \<Rightarrow> params_second l values
      | _ \<Rightarrow> (Inl TypeError, l))"

text \<open>
  The invariants of the data model: \<^verbatim>\<open>output_dim == input_dim\<close>, and \<^verbatim>\<open>gamma\<close> and
  \<^verbatim>\<open>beta\<close> exist and have length \<^verbatim>\<open>input_dim\<close>.
\<close>

definition layer_inv :: "layer \<Rightarrow> bool" where
  "layer_inv l \<longleftrightarrow>
     output_dim l = input_dim l \<and>
     (case gamma l of None \<Rightarrow> False | Some g \<Rightarrow> int (length g) = input_dim l) \<and>
     (case beta l of None \<Rightarrow> False | Some b \<Rightarrow> int (length b) = input_dim l)"

text \<open>A layer of one feature with \<^verbatim>\<open>gamma = [1]\<close> and \<^verbatim>\<open>beta = [0]\<close>, for the examples.\<close>

definition unit_layer :: layer where
  "unit_layer =
     \<lparr>input_dim = 1, output_dim = 1, gamma = Some [1], beta = Some [0], cache = Empty\<rparr>"

subsection \<open>Arrays in tabulated form\<close>

text \<open>
  For the proofs an array is written as the table of a function of its indices: \<open>mkv d F\<close>
  is the vector \<open>[F 0, ..., F (d - 1)]\<close> and \<open>mk n d F\<close> the matrix of shape \<open>(n, d)\<close> with
  the entry \<open>F i j\<close> in row \<open>i\<close> and column \<open>j\<close>.
\<close>

definition mkv :: "nat \<Rightarrow> (nat \<Rightarrow> 'a) \<Rightarrow> 'a list" where
  "mkv d F = map F [0..<d]"

definition mk :: "nat \<Rightarrow> nat \<Rightarrow> (nat \<Rightarrow> nat \<Rightarrow> 'a) \<Rightarrow> 'a list list" where
  "mk n d F = map (\<lambda>i. map (F i) [0..<d]) [0..<n]"

section \<open>Lemmas about the array operations\<close>

lemma ebind_Inl: "ebind (Inl e) f = Inl e"
  by (simp add: ebind_def)

lemma ebind_Inr: "ebind (Inr x) f = f x"
  by (simp add: ebind_def)

lemma collect_map_Inr:
  "(\<And>x. x \<in> set xs \<Longrightarrow> f x = Inr (g x)) \<Longrightarrow> collect (map f xs) = Inr (map g xs)"
  by (induction xs) (simp_all add: ebind_Inr)

subsection \<open>Tabulated arrays\<close>

lemma length_mkv: "length (mkv d F) = d"
  by (simp add: mkv_def)

lemma nth_mkv: "j < d \<Longrightarrow> mkv d F ! j = F j"
  by (simp add: mkv_def)

lemma length_mk: "length (mk n d F) = n"
  by (simp add: mk_def)

lemma nth_mk: "i < n \<Longrightarrow> j < d \<Longrightarrow> mk n d F ! i ! j = F i j"
  by (simp add: mk_def)

lemma mk_rows: "mk n d F = mkv n (\<lambda>i. mkv d (F i))"
  by (simp add: mk_def mkv_def)

lemma is_matrix_mk: "is_matrix n d (mk n d F)"
  by (simp add: is_matrix_def mk_def list_all_iff)

lemma mkv_nth: "length v = d \<Longrightarrow> mkv d (\<lambda>j. v ! j) = v"
  by (auto simp: mkv_def map_nth)

lemma mk_nth: "is_matrix n d m \<Longrightarrow> mk n d (\<lambda>i j. m ! i ! j) = m"
  by (auto simp: is_matrix_def mk_def list_all_iff intro!: nth_equalityI)

lemma mkv_cong: "(\<And>j. j < d \<Longrightarrow> F j = G j) \<Longrightarrow> mkv d F = mkv d G"
  by (simp add: mkv_def)

lemma mk_cong: "(\<And>i j. i < n \<Longrightarrow> j < d \<Longrightarrow> F i j = G i j) \<Longrightarrow> mk n d F = mk n d G"
  by (simp add: mk_def)

lemma map_mkv: "map f (mkv d F) = mkv d (\<lambda>j. f (F j))"
  by (simp add: mkv_def)

lemma map_map_mk: "map (map f) (mk n d F) = mk n d (\<lambda>i j. f (F i j))"
  by (simp add: mk_def)

subsection \<open>Broadcasting on arrays of matching shapes\<close>

lemma zip_mkv: "zip (mkv d F) (mkv d G) = mkv d (\<lambda>j. (F j, G j))"
  by (simp add: mkv_def zip_map_map zip_same_conv_map)

lemma bc_list_mkv: "bc_list (mkv d F) (mkv d G) = Inr (mkv d (\<lambda>j. (F j, G j)))"
  by (simp add: bc_list_def length_mkv zip_mkv)

lemma bc_list_single_r: "0 < n \<Longrightarrow> bc_list (mkv n F) [v] = Inr (mkv n (\<lambda>i. (F i, v)))"
  by (cases "n = 1") (auto simp: bc_list_def mkv_def)

lemma bc_list_single_l: "0 < n \<Longrightarrow> bc_list [v] (mkv n F) = Inr (mkv n (\<lambda>i. (v, F i)))"
  by (cases "n = 1") (auto simp: bc_list_def mkv_def)

lemma collect_mkv: "(\<And>i. i < n \<Longrightarrow> f i = Inr (g i)) \<Longrightarrow> collect (mkv n f) = Inr (mkv n g)"
  unfolding mkv_def by (rule collect_map_Inr) auto

lemma bc_mat_mk: "bc_mat (mk n d F) (mk n d G) = Inr (mk n d (\<lambda>i j. (F i j, G i j)))"
  by (simp add: bc_mat_def mk_rows bc_list_mkv ebind_Inr map_mkv collect_mkv)

lemma bc_mat_mk_row: "0 < n \<Longrightarrow> bc_mat (mk n d F) [mkv d V] = Inr (mk n d (\<lambda>i j. (F i j, V j)))"
  by (simp add: bc_mat_def mk_rows bc_list_single_r bc_list_mkv ebind_Inr map_mkv collect_mkv)

lemma bc_mat_row_mk: "0 < n \<Longrightarrow> bc_mat [mkv d V] (mk n d F) = Inr (mk n d (\<lambda>i j. (V j, F i j)))"
  by (simp add: bc_mat_def mk_rows bc_list_single_l bc_list_mkv ebind_Inr map_mkv collect_mkv)


subsection \<open>The operations on tabulated arrays\<close>

lemma ew_vv_mkv: "ew_vv f (mkv d F) (mkv d G) = Inr (mkv d (\<lambda>j. f (F j) (G j)))"
  by (simp add: ew_vv_def bc_list_mkv ebind_Inr map_mkv)

lemma ew_mm_mk: "ew_mm f (mk n d F) (mk n d G) = Inr (mk n d (\<lambda>i j. f (F i j) (G i j)))"
  by (simp add: ew_mm_def bc_mat_mk ebind_Inr map_map_mk)

lemma ew_mv_mk: "0 < n \<Longrightarrow> ew_mv f (mk n d F) (mkv d V) = Inr (mk n d (\<lambda>i j. f (F i j) (V j)))"
  by (simp add: ew_mv_def ew_mm_def bc_mat_mk_row ebind_Inr map_map_mk)

lemma ew_vm_mk: "0 < n \<Longrightarrow> ew_vm f (mkv d V) (mk n d F) = Inr (mk n d (\<lambda>i j. f (V j) (F i j)))"
  by (simp add: ew_vm_def ew_mm_def bc_mat_row_mk ebind_Inr map_map_mk)

lemma list_ex_mkv: "list_ex P (mkv d F) \<longleftrightarrow> (\<exists>j<d. P (F j))"
  by (auto simp: mkv_def list_ex_iff)

lemma list_ex_mk: "list_ex (list_ex P) (mk n d F) \<longleftrightarrow> (\<exists>i<n. \<exists>j<d. P (F i j))"
  by (simp add: mk_def list_ex_iff) (meson atLeastLessThan_iff zero_le)

lemma np_divide_vv_mkv:
  "(\<And>j. j < d \<Longrightarrow> G j \<noteq> 0) \<Longrightarrow>
   np_divide_vv (mkv d F) (mkv d G) = Inr (mkv d (\<lambda>j. F j / G j))"
  by (simp add: np_divide_vv_def bc_list_mkv ebind_Inr map_mkv list_ex_mkv)

lemma np_divide_mv_mk:
  "0 < n \<Longrightarrow> (\<And>j. j < d \<Longrightarrow> V j \<noteq> 0) \<Longrightarrow>
   np_divide_mv (mk n d F) (mkv d V) = Inr (mk n d (\<lambda>i j. F i j / V j))"
  by (simp add: np_divide_mv_def np_divide_mm_def bc_mat_mk_row ebind_Inr map_map_mk list_ex_mk)

lemma np_sqrt_mkv:
  "(\<And>j. j < d \<Longrightarrow> 0 \<le> V j) \<Longrightarrow> np_sqrt (mkv d V) = Inr (mkv d (\<lambda>j. sqrt (V j)))"
  by (fastforce simp: np_sqrt_def map_mkv list_ex_mkv)

lemma np_square_mkv: "np_square (mkv d V) = mkv d (\<lambda>j. V j * V j)"
  by (simp add: np_square_def map_mkv)

lemma ncols_mk: "0 < n \<Longrightarrow> ncols (mk n d F) = d"
  by (cases n) (simp_all add: ncols_def mk_def upt_conv_Cons del: upt_Suc)

lemma sum_axis0_mk: "0 < n \<Longrightarrow> sum_axis0 (mk n d F) = mkv d (\<lambda>j. \<Sum>i<n. F i j)"
  by (simp add: sum_axis0_def ncols_mk mkv_def)
     (simp add: mk_def comp_def interv_sum_list_conv_sum_set_nat atLeast0LessThan cong: map_cong)

lemma mean_axis0_mk:
  "0 < n \<Longrightarrow> mean_axis0 (mk n d F) = Inr (mkv d (\<lambda>j. (\<Sum>i<n. F i j) / real n))"
  by (simp add: mean_axis0_def length_mk sum_axis0_mk map_mkv)


subsection \<open>The forward pass on a tabulated batch\<close>

lemma var_axis0_mk:
  assumes "0 < n" and "M = (\<lambda>j. (\<Sum>i<n. X i j) / real n)"
  shows "var_axis0 (mk n d X) =
         Inr (mkv d (\<lambda>j. (\<Sum>i<n. (X i j - M j) * (X i j - M j)) / real n))"
  using assms by (simp add: var_axis0_def mean_axis0_mk ebind_Inr ew_mv_mk map_map_mk)

lemma fprop_cache_mk:
  assumes "0 < n"
    and "M = (\<lambda>j. (\<Sum>i<n. X i j) / real n)"
    and "S = (\<lambda>j. (\<Sum>i<n. (X i j - M j) * (X i j - M j)) / real n)"
  shows "fprop_cache (mk n d X) =
         Inr (mkv d (\<lambda>j. sqrt (S j + 1 / 10 ^ 8)),
              mk n d (\<lambda>i j. X i j - M j),
              mk n d (\<lambda>i j. (X i j - M j) / sqrt (sqrt (S j + 1 / 10 ^ 8))))"
proof -
  have S_nonneg: "0 \<le> S j" for j
    unfolding assms(3) by (intro divide_nonneg_nonneg sum_nonneg) simp_all
  have pos: "0 < S j + 1 / 10 ^ 8" for j
    using S_nonneg [of j] by (simp add: add_nonneg_pos)
  have mean: "mean_axis0 (mk n d X) = Inr (mkv d M)"
    using assms(1) by (simp add: mean_axis0_mk assms(2))
  have var: "var_axis0 (mk n d X) = Inr (mkv d S)"
    using var_axis0_mk [OF assms(1) assms(2)] by (simp add: assms(3))
  have std: "np_sqrt (map (\<lambda>s. s + 1 / 10 ^ 8) (mkv d S)) = Inr (mkv d (\<lambda>j. sqrt (S j + 1 / 10 ^ 8)))"
    unfolding map_mkv by (rule np_sqrt_mkv) (use pos in \<open>simp add: less_imp_le\<close>)
  have diff: "ew_mv (-) (mk n d X) (mkv d M) = Inr (mk n d (\<lambda>i j. X i j - M j))"
    using assms(1) by (rule ew_mv_mk)
  have den: "np_sqrt (mkv d (\<lambda>j. sqrt (S j + 1 / 10 ^ 8))) = Inr (mkv d (\<lambda>j. sqrt (sqrt (S j + 1 / 10 ^ 8))))"
    by (rule np_sqrt_mkv) (use pos in \<open>simp add: less_imp_le\<close>)
  have quot: "np_divide_mv (mk n d (\<lambda>i j. X i j - M j)) (mkv d (\<lambda>j. sqrt (sqrt (S j + 1 / 10 ^ 8)))) =
              Inr (mk n d (\<lambda>i j. (X i j - M j) / sqrt (sqrt (S j + 1 / 10 ^ 8))))"
    using assms(1) by (rule np_divide_mv_mk) (use pos in \<open>simp add: less_imp_neq [THEN not_sym]\<close>)
  show ?thesis
    unfolding fprop_cache_def mean var std diff den quot ebind_Inr ..
qed

subsection \<open>The forward pass on a batch\<close>

lemma fprop_cache_ok:
  assumes "is_matrix n d inputs" and "0 < n"
  shows "\<exists>mu sigma2.
           mean_axis0 inputs = Inr mu \<and> length mu = d \<and>
           var_axis0 inputs = Inr sigma2 \<and> length sigma2 = d \<and>
           (\<forall>j<d. 0 \<le> sigma2 ! j) \<and>
           fprop_cache inputs =
             Inr (map (\<lambda>s. sqrt (s + 1 / 10 ^ 8)) sigma2,
                  mk n d (\<lambda>i j. inputs ! i ! j - mu ! j),
                  mk n d (\<lambda>i j. (inputs ! i ! j - mu ! j) / sqrt (sqrt (sigma2 ! j + 1 / 10 ^ 8))))"
proof -
  define X where "X = (\<lambda>i j. inputs ! i ! j)"
  define M where "M = (\<lambda>j. (\<Sum>i<n. X i j) / real n)"
  define S where "S = (\<lambda>j. (\<Sum>i<n. (X i j - M j) * (X i j - M j)) / real n)"
  have inputs: "inputs = mk n d X"
    using mk_nth [OF assms(1)] by (simp add: X_def)
  have S_nonneg: "0 \<le> S j" for j
    unfolding S_def by (intro divide_nonneg_nonneg sum_nonneg) simp_all
  have mean: "mean_axis0 inputs = Inr (mkv d M)"
    unfolding inputs using assms(2) by (simp add: mean_axis0_mk M_def)
  have var: "var_axis0 inputs = Inr (mkv d S)"
    unfolding inputs using var_axis0_mk [OF assms(2) M_def] by (simp add: S_def)
  have fc: "fprop_cache inputs =
         Inr (mkv d (\<lambda>j. sqrt (S j + 1 / 10 ^ 8)),
              mk n d (\<lambda>i j. X i j - M j),
              mk n d (\<lambda>i j. (X i j - M j) / sqrt (sqrt (S j + 1 / 10 ^ 8))))"
    unfolding inputs by (rule fprop_cache_mk [OF assms(2) M_def S_def])
  have e1: "mkv d (\<lambda>j. sqrt (S j + 1 / 10 ^ 8)) = map (\<lambda>s. sqrt (s + 1 / 10 ^ 8)) (mkv d S)"
    by (simp add: map_mkv)
  have e2: "mk n d (\<lambda>i j. X i j - M j) = mk n d (\<lambda>i j. inputs ! i ! j - mkv d M ! j)"
    by (rule mk_cong) (simp add: nth_mkv X_def)
  have e3: "mk n d (\<lambda>i j. (X i j - M j) / sqrt (sqrt (S j + 1 / 10 ^ 8))) =
            mk n d (\<lambda>i j. (inputs ! i ! j - mkv d M ! j) / sqrt (sqrt (mkv d S ! j + 1 / 10 ^ 8)))"
    by (rule mk_cong) (simp add: nth_mkv X_def)
  show ?thesis
    apply (rule exI [of _ "mkv d M"])
    apply (rule exI [of _ "mkv d S"])
    using mean var S_nonneg fc
    apply (simp only: e1 e2 e3 length_mkv)
    apply (simp add: nth_mkv)
    done
qed

subsection \<open>The errors of the elementwise operations\<close>

lemma bc_list_error: "bc_list xs ys = Inl e \<Longrightarrow> e = ValueError"
  by (auto simp: bc_list_def split: if_splits)

lemma collect_error: "collect xs = Inl e \<Longrightarrow> Inl e \<in> set xs"
  by (induction xs) (auto simp: ebind_def split: sum.splits)

lemma bc_mat_error: "bc_mat a b = Inl e \<Longrightarrow> e = ValueError"
  by (auto simp: bc_mat_def ebind_def split: sum.splits
           dest!: collect_error dest: bc_list_error bc_list_error [OF sym])

lemma ew_mm_error: "ew_mm f a b = Inl e \<Longrightarrow> e = ValueError"
  by (auto simp: ew_mm_def ebind_def split: sum.splits dest: bc_mat_error)

lemma fprop_output_error:
  "fprop_output l uhat = Inl e \<Longrightarrow> e = AttributeError \<or> e = ValueError"
  by (auto simp: fprop_output_def ew_vm_def ew_mv_def ebind_def
           split: option.splits sum.splits dest: ew_mm_error)




subsection \<open>Two batches evaluated\<close>

lemma eval_var: "var_axis0 [[5],[5]] = Inr [0]"
  by (simp add: var_axis0_def mean_axis0_def sum_axis0_def ncols_def ebind_def ew_mv_def ew_mm_def
        bc_mat_def bc_list_def)

lemma eval_fc: "fprop_cache [[0],[4]] = Inr ([sqrt (4 + 1 / 10 ^ 8)], [[-2],[2]],
    [[-2 / sqrt (sqrt (4 + 1 / 10 ^ 8))], [2 / sqrt (sqrt (4 + 1 / 10 ^ 8))]])"
  by (simp add: fprop_cache_def var_axis0_def mean_axis0_def sum_axis0_def ncols_def ebind_def ew_mv_def ew_mm_def
        bc_mat_def bc_list_def np_sqrt_def np_divide_mv_def np_divide_mm_def)

section \<open>The claims about the forward pass\<close>

text \<open>
  Claim C1 says that the normalized activation is \<open>uhat = diff / std\<close>. Line 36 divides by
  \<^verbatim>\<open>np.sqrt(std)\<close> instead. On the batch \<open>[[0], [4]]\<close> (mean 2, variance 4) the cache
  holds \<open>std = [sqrt (4 + 1e-8)]\<close>, \<open>diff = [[-2], [2]]\<close> and
  \<open>uhat = [[-2 / sqrt std], [2 / sqrt std]]\<close>, and \<open>2 / sqrt std\<close> is not \<open>2 / std\<close>.
\<close>

theorem fprop_uhat_not_diff_over_std:
  "cache (snd (fprop unit_layer [[0], [4]])) =
     Filled [sqrt (4 + 1 / 10 ^ 8)] [[- 2], [2]]
            [[- 2 / sqrt (sqrt (4 + 1 / 10 ^ 8))], [2 / sqrt (sqrt (4 + 1 / 10 ^ 8))]] \<and>
   2 / sqrt (sqrt (4 + 1 / 10 ^ 8)) \<noteq> 2 / sqrt (4 + 1 / 10 ^ 8)"
proof -
  define s :: real where "s = sqrt (4 + 1 / 10 ^ 8)"
  have "sqrt 1 < s" unfolding s_def by (rule real_sqrt_less_mono) simp
  then have s1: "1 < s" by simp
  have "sqrt s \<noteq> s"
  proof
    assume "sqrt s = s"
    then have "sqrt s * sqrt s = s * s" by simp
    with s1 have "s = s * s" by simp
    with s1 show False by simp
  qed
  moreover have "0 < sqrt s" using s1 by simp
  ultimately have "2 / sqrt s \<noteq> 2 / s"
    using s1 by (simp add: field_simps)
  then show ?thesis
    unfolding s_def by (simp add: fprop_def eval_fc)
qed

text \<open>
  The denominators of the normalization, in exact arithmetic. \<^verbatim>\<open>fprop\<close> computes
  \<open>std = sqrt (sigma2 + 1e-8)\<close> from the variance \<open>sigma2\<close> of the batch; on a batch of at
  least one row, whatever its variance, every entry of \<open>std\<close> and every divisor of line 36
  (the square root of an entry of \<open>std\<close>) is strictly positive, so that no operation meets
  a zero denominator, a negative radicand or an empty mean. The layer \<open>l\<close> is arbitrary.

  This says nothing about the \<^verbatim>\<open>float64\<close> values NaN and Inf that the program can
  produce by overflow: on the batch \<open>[[1e308], [1e308]]\<close> the sum inside \<^verbatim>\<open>np.mean\<close>
  exceeds the largest \<^verbatim>\<open>float64\<close>, which the real numbers of this model do not show. The
  claim that \<^verbatim>\<open>fprop\<close> produces no NaN or Inf on every batch (C2) is a claim about
  \<^verbatim>\<open>float64\<close> and is not stated in this theory.
\<close>

lemma fprop_exact_denominators:
  assumes "is_matrix n d inputs" and "0 < n"
  shows "\<exists>sigma2 std diff uhat.
           var_axis0 inputs = Inr sigma2 \<and>
           cache (snd (fprop l inputs)) = Filled std diff uhat \<and>
           std = map (\<lambda>s. sqrt (s + 1 / 10 ^ 8)) sigma2 \<and>
           list_all (\<lambda>s. 0 < s \<and> 0 < sqrt s) std \<and>
           (\<forall>i<n. \<forall>j<d. uhat ! i ! j = diff ! i ! j / sqrt (std ! j)) \<and>
           fst (fprop l inputs) \<noteq> Inl NonFinite"
proof -
  from fprop_cache_ok [OF assms] obtain mu sigma2 where
    var: "var_axis0 inputs = Inr sigma2" and len: "length sigma2 = d"
    and nonneg: "\<forall>j<d. 0 \<le> sigma2 ! j"
    and fc: "fprop_cache inputs =
             Inr (map (\<lambda>s. sqrt (s + 1 / 10 ^ 8)) sigma2,
                  mk n d (\<lambda>i j. inputs ! i ! j - mu ! j),
                  mk n d (\<lambda>i j. (inputs ! i ! j - mu ! j) / sqrt (sqrt (sigma2 ! j + 1 / 10 ^ 8))))"
    by blast
  let ?std = "map (\<lambda>s. sqrt (s + 1 / 10 ^ 8)) sigma2"
  let ?diff = "mk n d (\<lambda>i j. inputs ! i ! j - mu ! j)"
  let ?uhat = "mk n d (\<lambda>i j. (inputs ! i ! j - mu ! j) / sqrt (sqrt (sigma2 ! j + 1 / 10 ^ 8)))"
  have pos: "list_all (\<lambda>s. 0 < s \<and> 0 < sqrt s) ?std"
    unfolding list_all_length
  proof (intro allI impI)
    fix j assume "j < length ?std"
    then have j: "j < d" by (simp add: len)
    with nonneg have "0 \<le> sigma2 ! j" by simp
    then have "0 < sigma2 ! j + 1 / 10 ^ 8" by (simp add: add_nonneg_pos)
    then show "0 < ?std ! j \<and> 0 < sqrt (?std ! j)"
      using j by (simp add: len)
  qed
  have uhat: "\<forall>i<n. \<forall>j<d. ?uhat ! i ! j = ?diff ! i ! j / sqrt (?std ! j)"
    by (simp add: nth_mk len)
  have res: "fst (fprop l inputs) \<noteq> Inl NonFinite"
    using fprop_output_error [of l ?uhat NonFinite] by (auto simp: fprop_def fc)
  have c: "cache (snd (fprop l inputs)) = Filled ?std ?diff ?uhat"
    by (simp add: fprop_def fc)
  from var c pos uhat res show ?thesis by blast
qed

text \<open>
  The same on the batch \<open>[[5], [5]]\<close>, whose variance is zero, and the layer of one
  feature.
\<close>

lemma fprop_exact_denominators_example:
  "is_matrix 2 1 [[5], [5 :: real]] \<and> (0 :: nat) < 2 \<and> var_axis0 [[5], [5]] = Inr [0] \<and>
   (\<exists>sigma2 std diff uhat.
           var_axis0 [[5], [5]] = Inr sigma2 \<and>
           cache (snd (fprop unit_layer [[5], [5]])) = Filled std diff uhat \<and>
           std = map (\<lambda>s. sqrt (s + 1 / 10 ^ 8)) sigma2 \<and>
           list_all (\<lambda>s. 0 < s \<and> 0 < sqrt s) std \<and>
           (\<forall>i<2. \<forall>j<1. uhat ! i ! j = diff ! i ! j / sqrt (std ! j)) \<and>
           fst (fprop unit_layer [[5], [5]]) \<noteq> Inl NonFinite)"
proof -
  have m: "is_matrix 2 1 [[5], [5 :: real]]" by (simp add: is_matrix_def)
  have v: "var_axis0 [[5], [5]] = Inr [0]" by (rule eval_var)
  from m v fprop_exact_denominators [OF m, of unit_layer] show ?thesis by simp
qed



section \<open>The backward pass\<close>

lemma bprop_mk:
  assumes n: "0 < n"
    and c: "cache l = Filled (mkv d Sd) (mk n d Df) (mk n d U)"
    and g: "gamma l = Some (mkv d G)"
    and len: "length inputs = n"
    and nz: "\<And>j. j < d \<Longrightarrow> Sd j \<noteq> 0"
  shows "bprop l inputs outputs (mk n d Gr) =
         Inr (mk n d (\<lambda>i j.
           Gr i j * G j / Sd j
           + 2 * (- (1 / 2) * ((\<Sum>k<n. Gr k j * G j * U k j) / (Sd j * Sd j))) * Df i j * (1 / real n)
           + - 1 * ((\<Sum>k<n. Gr k j * G j) / Sd j) * (1 / real n)))"
proof -
  let ?duhat = "mk n d (\<lambda>i j. Gr i j * G j)"
  have duhat: "ew_mv (*) (mk n d Gr) (mkv d G) = Inr ?duhat"
    using n by (rule ew_mv_mk)
  let ?du = "mk n d (\<lambda>i j. Gr i j * G j * U i j)"
  have du: "ew_mm (*) ?duhat (mk n d U) = Inr ?du"
    by (rule ew_mm_mk)
  let ?q = "mkv d (\<lambda>j. (\<Sum>k<n. Gr k j * G j * U k j) / (Sd j * Sd j))"
  have q: "np_divide_vv (sum_axis0 ?du) (np_square (mkv d Sd)) = Inr ?q"
    unfolding sum_axis0_mk [OF n] np_square_mkv
    by (rule np_divide_vv_mkv) (simp add: nz)
  let ?dvar2 = "mkv d (\<lambda>j. 2 * (- (1 / 2) * ((\<Sum>k<n. Gr k j * G j * U k j) / (Sd j * Sd j))))"
  have dvar2: "map (\<lambda>x. 2 * x) (map (\<lambda>x. - (1 / 2) * x) ?q) = ?dvar2"
    unfolding map_mkv ..
  let ?q' = "mkv d (\<lambda>j. (\<Sum>k<n. Gr k j * G j) / Sd j)"
  have q': "np_divide_vv (sum_axis0 ?duhat) (mkv d Sd) = Inr ?q'"
    unfolding sum_axis0_mk [OF n]
    by (rule np_divide_vv_mkv) (simp add: nz)
  let ?t1 = "mk n d (\<lambda>i j. Gr i j * G j / Sd j)"
  have t1: "np_divide_mv ?duhat (mkv d Sd) = Inr ?t1"
    using n by (rule np_divide_mv_mk) (simp add: nz)
  let ?t2 = "mk n d (\<lambda>i j. 2 * (- (1 / 2) * ((\<Sum>k<n. Gr k j * G j * U k j) / (Sd j * Sd j))) * Df i j)"
  have t2: "ew_vm (*) ?dvar2 (mk n d Df) = Inr ?t2"
    using n by (rule ew_vm_mk)
  have c1: "py_div 1 n = Inr (1 / real n)"
    using n by (simp add: py_div_def)
  let ?t2c = "mk n d (\<lambda>i j. 2 * (- (1 / 2) * ((\<Sum>k<n. Gr k j * G j * U k j) / (Sd j * Sd j))) * Df i j * (1 / real n))"
  have t2c: "map (map (\<lambda>x. x * (1 / real n))) ?t2 = ?t2c"
    unfolding map_map_mk ..
  let ?s = "mk n d (\<lambda>i j. Gr i j * G j / Sd j
      + 2 * (- (1 / 2) * ((\<Sum>k<n. Gr k j * G j * U k j) / (Sd j * Sd j))) * Df i j * (1 / real n))"
  have s: "ew_mm (+) ?t1 ?t2c = Inr ?s"
    by (rule ew_mm_mk)
  let ?t3 = "mkv d (\<lambda>j. - 1 * ((\<Sum>k<n. Gr k j * G j) / Sd j) * (1 / real n))"
  have t3: "map (\<lambda>x. x * (1 / real n)) (map (\<lambda>x. - 1 * x) ?q') = ?t3"
    unfolding map_mkv ..
  have fin: "ew_mv (+) ?s ?t3 = Inr (mk n d (\<lambda>i j.
           Gr i j * G j / Sd j
           + 2 * (- (1 / 2) * ((\<Sum>k<n. Gr k j * G j * U k j) / (Sd j * Sd j))) * Df i j * (1 / real n)
           + - 1 * ((\<Sum>k<n. Gr k j * G j) / Sd j) * (1 / real n)))"
    using n by (rule ew_mv_mk)
  show ?thesis
    unfolding bprop_def c g len cache.case option.case Let_def
      duhat du q q' t1 dvar2 t2 c1 t2c s t3 fin ebind_Inr ..
qed


lemma bprop_formula:
  assumes n: "0 < n"
    and c: "cache l = Filled std diff uhat"
    and std: "length std = d" and diff: "is_matrix n d diff" and uhat: "is_matrix n d uhat"
    and g: "gamma l = Some g" and lg: "length g = d"
    and len: "length inputs = n" and grads: "is_matrix n d grads"
    and nz: "\<And>j. j < d \<Longrightarrow> std ! j \<noteq> 0"
  shows "\<exists>gi. bprop l inputs outputs grads = Inr gi \<and> is_matrix n d gi \<and>
           (\<forall>i<n. \<forall>j<d.
              let duhat = (\<lambda>i j. grads ! i ! j * g ! j);
                  dvar = (\<lambda>j. - (1 / 2) * (\<Sum>k<n. duhat k j * uhat ! k ! j) / (std ! j)\<^sup>2);
                  dmu = (\<lambda>j. - (\<Sum>k<n. duhat k j) / std ! j)
              in gi ! i ! j = duhat i j / std ! j + 2 * dvar j * diff ! i ! j / real n + dmu j / real n)"
proof -
  let ?gi = "mk n d (\<lambda>i j.
           grads ! i ! j * g ! j / std ! j
           + 2 * (- (1 / 2) * ((\<Sum>k<n. grads ! k ! j * g ! j * uhat ! k ! j) / (std ! j * std ! j)))
               * diff ! i ! j * (1 / real n)
           + - 1 * ((\<Sum>k<n. grads ! k ! j * g ! j) / std ! j) * (1 / real n))"
  have c': "cache l = Filled (mkv d (\<lambda>j. std ! j)) (mk n d (\<lambda>i j. diff ! i ! j)) (mk n d (\<lambda>i j. uhat ! i ! j))"
    by (simp add: c mkv_nth [OF std] mk_nth [OF diff] mk_nth [OF uhat])
  have g': "gamma l = Some (mkv d (\<lambda>j. g ! j))"
    by (simp add: g mkv_nth [OF lg])
  have "bprop l inputs outputs (mk n d (\<lambda>i j. grads ! i ! j)) = Inr ?gi"
    by (rule bprop_mk [OF n c' g' len nz])
  then have "bprop l inputs outputs grads = Inr ?gi"
    by (simp only: mk_nth [OF grads])
  moreover have "is_matrix n d ?gi"
    by (rule is_matrix_mk)
  moreover have "\<forall>i<n. \<forall>j<d.
              let duhat = (\<lambda>i j. grads ! i ! j * g ! j);
                  dvar = (\<lambda>j. - (1 / 2) * (\<Sum>k<n. duhat k j * uhat ! k ! j) / (std ! j)\<^sup>2);
                  dmu = (\<lambda>j. - (\<Sum>k<n. duhat k j) / std ! j)
              in ?gi ! i ! j = duhat i j / std ! j + 2 * dvar j * diff ! i ! j / real n + dmu j / real n"
    by (simp add: nth_mk Let_def power2_eq_square)
  ultimately show ?thesis by blast
qed


lemma fprop_state:
  assumes "is_matrix n d inputs" and "0 < n" and "fprop l0 inputs = (r, l)"
  shows "\<exists>std diff uhat. l = l0\<lparr>cache := Filled std diff uhat\<rparr> \<and> length std = d \<and>
           is_matrix n d diff \<and> is_matrix n d uhat \<and> (\<forall>j<d. 0 < std ! j)"
proof -
  from fprop_cache_ok [OF assms(1,2)] obtain mu sigma2 where
    len: "length sigma2 = d" and nonneg: "\<forall>j<d. 0 \<le> sigma2 ! j"
    and fc: "fprop_cache inputs =
             Inr (map (\<lambda>s. sqrt (s + 1 / 10 ^ 8)) sigma2,
                  mk n d (\<lambda>i j. inputs ! i ! j - mu ! j),
                  mk n d (\<lambda>i j. (inputs ! i ! j - mu ! j) / sqrt (sqrt (sigma2 ! j + 1 / 10 ^ 8))))"
    by blast
  let ?std = "map (\<lambda>s. sqrt (s + 1 / 10 ^ 8)) sigma2"
  let ?diff = "mk n d (\<lambda>i j. inputs ! i ! j - mu ! j)"
  let ?uhat = "mk n d (\<lambda>i j. (inputs ! i ! j - mu ! j) / sqrt (sqrt (sigma2 ! j + 1 / 10 ^ 8)))"
  have "l = l0\<lparr>cache := Filled ?std ?diff ?uhat\<rparr>"
    using assms(3) by (simp add: fprop_def fc)
  moreover have "length ?std = d" by (simp add: len)
  moreover have "is_matrix n d ?diff" and "is_matrix n d ?uhat" by (rule is_matrix_mk)+
  moreover have "\<forall>j<d. 0 < ?std ! j"
  proof (intro allI impI)
    fix j assume j: "j < d"
    with nonneg have "0 \<le> sigma2 ! j" by simp
    then have "0 < sigma2 ! j + 1 / 10 ^ 8" by (simp add: add_nonneg_pos)
    then show "0 < ?std ! j" using j by (simp add: len)
  qed
  ultimately show ?thesis by blast
qed

lemma eval_fprop:
  "fprop unit_layer [[0], [4]] =
     (Inr [[- 2 / sqrt (sqrt (4 + 1 / 10 ^ 8))], [2 / sqrt (sqrt (4 + 1 / 10 ^ 8))]],
      unit_layer\<lparr>cache := Filled [sqrt (4 + 1 / 10 ^ 8)] [[- 2], [2]]
            [[- 2 / sqrt (sqrt (4 + 1 / 10 ^ 8))], [2 / sqrt (sqrt (4 + 1 / 10 ^ 8))]]\<rparr>)"
  by (simp add: fprop_def eval_fc fprop_output_def unit_layer_def ew_vm_def ew_mv_def ew_mm_def
        bc_mat_def bc_list_def ebind_def)

section \<open>The claims about the gradients\<close>

text \<open>
  Claim C4. Let \<^verbatim>\<open>fprop\<close> have returned on the batch \<open>inputs\<close> of shape \<open>(n, d)\<close>,
  \<open>n \<ge> 1\<close>, leaving the layer \<open>l\<close> with the cache \<open>(std, diff, uhat)\<close>, and let \<^verbatim>\<open>gamma\<close>
  have length \<open>d\<close>. Then for gradients of shape \<open>(n, d)\<close> \<^verbatim>\<open>bprop\<close> returns the matrix
  \<open>duhat / std + 2 * dvar * diff / n + dmu / n\<close> of shape \<open>(n, d)\<close>, where
  \<open>duhat = grads_wrt_outputs * gamma\<close>, \<open>dvar = -0.5 * sum_over_batch (duhat * uhat) / std\<^sup>2\<close>
  and \<open>dmu = - sum_over_batch duhat / std\<close>, entry by entry.
\<close>

theorem bprop_gradient_formula:
  assumes "is_matrix n d inputs" and "0 < n"
    and "fprop l0 inputs = (Inr y, l)"
    and "gamma l0 = Some g" and "length g = d"
    and "is_matrix n d grads"
  shows "\<exists>std diff uhat gi.
           cache l = Filled std diff uhat \<and>
           bprop l inputs y grads = Inr gi \<and> is_matrix n d gi \<and>
           (\<forall>i<n. \<forall>j<d.
              let duhat = (\<lambda>i j. grads ! i ! j * g ! j);
                  dvar = (\<lambda>j. - (1 / 2) * (\<Sum>k<n. duhat k j * uhat ! k ! j) / (std ! j)\<^sup>2);
                  dmu = (\<lambda>j. - (\<Sum>k<n. duhat k j) / std ! j)
              in gi ! i ! j = duhat i j / std ! j + 2 * dvar j * diff ! i ! j / real n + dmu j / real n)"
proof -
  from fprop_state [OF assms(1-3)] obtain std diff uhat where
    l: "l = l0\<lparr>cache := Filled std diff uhat\<rparr>" and std: "length std = d"
    and diff: "is_matrix n d diff" and uhat: "is_matrix n d uhat"
    and pos: "\<forall>j<d. 0 < std ! j"
    by blast
  have c: "cache l = Filled std diff uhat" and g: "gamma l = Some g"
    by (simp_all add: l assms(4))
  have len: "length inputs = n"
    using assms(1) by (simp add: is_matrix_def)
  have nz: "std ! j \<noteq> 0" if "j < d" for j
    using pos that by fastforce
  from bprop_formula [OF assms(2) c std diff uhat g assms(5) len assms(6) nz, of y] c
  show ?thesis by blast
qed

text \<open>Claim C4 on the batch \<open>[[0], [4]]\<close> with the gradients \<open>[[1], [1]]\<close>.\<close>

theorem bprop_gradient_formula_witness:
  "is_matrix 2 1 [[0], [4 :: real]] \<and> (0 :: nat) < 2 \<and>
   gamma unit_layer = Some [1] \<and> is_matrix 2 1 [[1], [1 :: real]] \<and>
   (\<exists>y l. fprop unit_layer [[0], [4]] = (Inr y, l) \<and>
     (\<exists>std diff uhat gi.
           cache l = Filled std diff uhat \<and>
           bprop l [[0], [4]] y [[1], [1]] = Inr gi \<and> is_matrix 2 1 gi \<and>
           (\<forall>i<2. \<forall>j<1.
              let duhat = (\<lambda>i j. [[1], [1]] ! i ! j * [1 :: real] ! j);
                  dvar = (\<lambda>j. - (1 / 2) * (\<Sum>k<2. duhat k j * uhat ! k ! j) / (std ! j)\<^sup>2);
                  dmu = (\<lambda>j. - (\<Sum>k<2. duhat k j) / std ! j)
              in gi ! i ! j = duhat i j / std ! j + 2 * dvar j * diff ! i ! j / real 2 + dmu j / real 2)))"
proof -
  have m: "is_matrix 2 1 [[0], [4 :: real]]" and gr: "is_matrix 2 1 [[1], [1 :: real]]"
    by (simp_all add: is_matrix_def)
  have g: "gamma unit_layer = Some [1]" by (simp add: unit_layer_def)
  have n: "(0 :: nat) < 2" and lg: "length [1 :: real] = 1" by simp_all
  have "\<exists>y l. fprop unit_layer [[0], [4]] = (Inr y, l) \<and>
     (\<exists>std diff uhat gi.
           cache l = Filled std diff uhat \<and>
           bprop l [[0], [4]] y [[1], [1]] = Inr gi \<and> is_matrix 2 1 gi \<and>
           (\<forall>i<2. \<forall>j<1.
              let duhat = (\<lambda>i j. [[1], [1]] ! i ! j * [1 :: real] ! j);
                  dvar = (\<lambda>j. - (1 / 2) * (\<Sum>k<2. duhat k j * uhat ! k ! j) / (std ! j)\<^sup>2);
                  dmu = (\<lambda>j. - (\<Sum>k<2. duhat k j) / std ! j)
              in gi ! i ! j = duhat i j / std ! j + 2 * dvar j * diff ! i ! j / real 2 + dmu j / real 2))"
    by (rule exI, rule exI, rule conjI [OF eval_fprop bprop_gradient_formula [OF m n eval_fprop g lg gr]])
  with m n g gr show ?thesis by (intro conjI)
qed

text \<open>
  Claim C5. With \<open>uhat\<close> in the cache and gradients of the same shape \<open>(n, d)\<close>, \<open>n \<ge> 1\<close>,
  \<open>d\<close> the layer's \<^verbatim>\<open>input_dim\<close>, \<^verbatim>\<open>grads_wrt_params\<close> returns the list
  \<open>[grad_gamma, grad_beta]\<close> in this order, both of length \<^verbatim>\<open>input_dim\<close> whatever \<open>n\<close> is:
  \<open>grad_beta\<close> is the sum of the gradients over the batch and \<open>grad_gamma\<close> the sum over the
  batch of the gradients times \<open>uhat\<close>.
\<close>

theorem grads_wrt_params_sums:
  assumes "cache l = Filled std diff uhat"
    and "is_matrix n d uhat" and "is_matrix n d grads" and "0 < n"
    and "input_dim l = int d"
  shows "\<exists>gg gb.
           grads_wrt_params l inputs grads = Inr [gg, gb] \<and>
           int (length gg) = input_dim l \<and> int (length gb) = input_dim l \<and>
           (\<forall>j<d. gb ! j = (\<Sum>i<n. grads ! i ! j) \<and>
                   gg ! j = (\<Sum>i<n. grads ! i ! j * uhat ! i ! j))"
proof -
  let ?G = "\<lambda>i j. grads ! i ! j" and ?U = "\<lambda>i j. uhat ! i ! j"
  have grads: "grads = mk n d ?G" and uhat: "uhat = mk n d ?U"
    by (simp_all add: mk_nth assms(2,3))
  have gb: "sum_axis0 grads = mkv d (\<lambda>j. \<Sum>i<n. ?G i j)"
    by (subst grads) (rule sum_axis0_mk [OF assms(4)])
  have p: "ew_mm (*) grads uhat = Inr (mk n d (\<lambda>i j. ?G i j * ?U i j))"
    by (subst grads, subst uhat) (rule ew_mm_mk)
  have gg: "sum_axis0 (mk n d (\<lambda>i j. ?G i j * ?U i j)) = mkv d (\<lambda>j. \<Sum>i<n. ?G i j * ?U i j)"
    by (rule sum_axis0_mk [OF assms(4)])
  have "grads_wrt_params l inputs grads =
        Inr [mkv d (\<lambda>j. \<Sum>i<n. ?G i j * ?U i j), mkv d (\<lambda>j. \<Sum>i<n. ?G i j)]"
    by (simp add: grads_wrt_params_def assms(1) gb p gg ebind_Inr)
  then show ?thesis
    by (simp add: length_mkv nth_mkv assms(5))
qed

text \<open>
  Claim C5 on a cache with \<open>uhat = [[-1], [1]]\<close> and the gradients \<open>[[1], [2]]\<close>: the result
  is \<open>[[1], [3]]\<close>.
\<close>

theorem grads_wrt_params_sums_witness:
  "cache (unit_layer\<lparr>cache := Filled [1] [[- 1], [1]] [[- 1], [1]]\<rparr>) = Filled [1] [[- 1], [1]] [[- 1], [1]] \<and>
   is_matrix 2 1 [[- 1], [1 :: real]] \<and> is_matrix 2 1 [[1], [2 :: real]] \<and> (0 :: nat) < 2 \<and>
   input_dim (unit_layer\<lparr>cache := Filled [1] [[- 1], [1]] [[- 1], [1]]\<rparr>) = int 1 \<and>
   grads_wrt_params (unit_layer\<lparr>cache := Filled [1] [[- 1], [1]] [[- 1], [1]]\<rparr>) [[0], [4]] [[1], [2]]
     = Inr [[1], [3]] \<and>
   (\<exists>gg gb.
      grads_wrt_params (unit_layer\<lparr>cache := Filled [1] [[- 1], [1]] [[- 1], [1]]\<rparr>) [[0], [4]] [[1], [2]]
        = Inr [gg, gb] \<and>
      int (length gg) = input_dim (unit_layer\<lparr>cache := Filled [1] [[- 1], [1]] [[- 1], [1]]\<rparr>) \<and>
      int (length gb) = input_dim (unit_layer\<lparr>cache := Filled [1] [[- 1], [1]] [[- 1], [1]]\<rparr>) \<and>
      (\<forall>j<1. gb ! j = (\<Sum>i<2. [[1], [2]] ! i ! j) \<and>
              gg ! j = (\<Sum>i<2. [[1], [2]] ! i ! j * [[- 1], [1]] ! i ! j)))"
proof -
  let ?l = "unit_layer\<lparr>cache := Filled [1] [[- 1], [1]] [[- 1], [1]]\<rparr>"
  have c: "cache ?l = Filled [1] [[- 1], [1]] [[- 1], [1]]" by simp
  have u: "is_matrix 2 1 [[- 1], [1 :: real]]" and gr: "is_matrix 2 1 [[1], [2 :: real]]"
    by (simp_all add: is_matrix_def)
  have n: "(0 :: nat) < 2" by simp
  have i: "input_dim ?l = int 1" by (simp add: unit_layer_def)
  have e: "grads_wrt_params ?l [[0], [4]] [[1], [2]] = Inr [[1], [3]]"
    by (simp add: grads_wrt_params_def sum_axis0_def ncols_def ew_mm_def bc_mat_def bc_list_def ebind_def)
  from grads_wrt_params_sums [OF c u gr n i, of "[[0], [4]]"] c u gr i e
  show ?thesis by simp
qed

text \<open>
  Claim C10. The result of \<^verbatim>\<open>grads_wrt_params\<close> does not depend on its argument
  \<^verbatim>\<open>inputs\<close>: for the same layer and the same gradients, any two \<^verbatim>\<open>inputs\<close> give the same
  result (the same list, or the same error).
\<close>

theorem grads_wrt_params_ignores_inputs:
  "grads_wrt_params l inputs grads = grads_wrt_params l inputs' grads"
  by (simp add: grads_wrt_params_def)



section \<open>The claims about construction, state and parameters\<close>

text \<open>
  Claim C6 says that construction with \<^verbatim>\<open>input_dim=3, output_dim=5\<close> fails with a
  configuration error. It does not fail: it returns a layer whose \<^verbatim>\<open>output_dim\<close> is 3.
\<close>

theorem init_mismatch_counterexample:
  "init 3 5 = Inr \<lparr>input_dim = 3, output_dim = 3, gamma = None, beta = None, cache = Empty\<rparr> \<and>
   init 3 5 \<noteq> Inl ConfigurationError"
  by (simp add: init_def)

text \<open>
  Claim C6, amended. Construction never fails. It does not read its argument
  \<^verbatim>\<open>output_dim\<close>: the layer has the \<^verbatim>\<open>input_dim\<close> given and \<^verbatim>\<open>output_dim = input_dim\<close>,
  and any other \<^verbatim>\<open>output_dim\<close> argument gives the same layer.
\<close>

theorem init_ignores_output_dim:
  "\<exists>l. init i od = Inr l \<and> input_dim l = i \<and> output_dim l = i \<and> init i od' = Inr l"
  by (simp add: init_def)

text \<open>
  Claim C7 says that the invariants hold after construction and are preserved by every
  operation. After \<^verbatim>\<open>BatchNormalizedLayer(3, 3)\<close> the attributes \<^verbatim>\<open>gamma\<close> and \<^verbatim>\<open>beta\<close>
  do not exist, so the invariants do not hold; and on a layer that satisfies them the call
  \<^verbatim>\<open>params([[1, 1], [0]])\<close> succeeds and leaves \<^verbatim>\<open>gamma\<close> of length 2 and \<^verbatim>\<open>beta\<close> of
  length 1 with \<^verbatim>\<open>input_dim = 3\<close>.
\<close>

theorem layer_inv_counterexample:
  "init 3 3 = Inr \<lparr>input_dim = 3, output_dim = 3, gamma = None, beta = None, cache = Empty\<rparr> \<and>
   \<not> layer_inv \<lparr>input_dim = 3, output_dim = 3, gamma = None, beta = None, cache = Empty\<rparr> \<and>
   layer_inv \<lparr>input_dim = 3, output_dim = 3, gamma = Some [1, 1, 1], beta = Some [0, 0, 0],
              cache = Empty\<rparr> \<and>
   params \<lparr>input_dim = 3, output_dim = 3, gamma = Some [1, 1, 1], beta = Some [0, 0, 0],
           cache = Empty\<rparr> [[[1, 1], [0]]] =
     (Inr (), \<lparr>input_dim = 3, output_dim = 3, gamma = Some [1, 1], beta = Some [0],
               cache = Empty\<rparr>) \<and>
   \<not> layer_inv \<lparr>input_dim = 3, output_dim = 3, gamma = Some [1, 1], beta = Some [0],
                cache = Empty\<rparr>"
  by (simp add: init_def layer_inv_def params_def params_second_def)

text \<open>
  Claim C7, amended. \<^verbatim>\<open>output_dim == input_dim\<close> holds after construction, where
  \<^verbatim>\<open>gamma\<close> and \<^verbatim>\<open>beta\<close> do not exist yet. \<^verbatim>\<open>fprop\<close> changes neither dimension and
  neither parameter; \<^verbatim>\<open>params\<close> changes neither dimension, whatever its arguments. After
  \<^verbatim>\<open>params([g, b])\<close> the invariants hold exactly when \<^verbatim>\<open>output_dim == input_dim\<close> held
  before and \<open>g\<close> and \<open>b\<close> both have length \<^verbatim>\<open>input_dim\<close>: the setter stores what it is given.
  (\<^verbatim>\<open>bprop\<close>, \<^verbatim>\<open>grads_wrt_params\<close> and \<^verbatim>\<open>params_penalty\<close> assign no attribute; in the model
  they return no layer.)
\<close>

theorem layer_inv_amended:
  "(\<exists>l. init i od = Inr l \<and> output_dim l = input_dim l \<and> gamma l = None \<and> beta l = None) \<and>
   (let l' = snd (fprop l inputs)
    in input_dim l' = input_dim l \<and> output_dim l' = output_dim l \<and>
       gamma l' = gamma l \<and> beta l' = beta l) \<and>
   (let l' = snd (params l args)
    in input_dim l' = input_dim l \<and> output_dim l' = output_dim l) \<and>
   (layer_inv (snd (params l [[g, b]])) \<longleftrightarrow>
      output_dim l = input_dim l \<and> int (length g) = input_dim l \<and> int (length b) = input_dim l)"
proof -
  have 1: "\<exists>l. init i od = Inr l \<and> output_dim l = input_dim l \<and> gamma l = None \<and> beta l = None"
    by (simp add: init_def)
  have 2: "let l' = snd (fprop l inputs)
    in input_dim l' = input_dim l \<and> output_dim l' = output_dim l \<and>
       gamma l' = gamma l \<and> beta l' = beta l"
    by (simp add: fprop_def split: sum.split prod.split)
  have 3: "let l' = snd (params l args)
    in input_dim l' = input_dim l \<and> output_dim l' = output_dim l"
    by (simp add: params_def params_second_def split: list.split)
  have 4: "layer_inv (snd (params l [[g, b]])) \<longleftrightarrow>
      output_dim l = input_dim l \<and> int (length g) = input_dim l \<and> int (length b) = input_dim l"
    by (simp add: params_def params_second_def layer_inv_def)
  from 1 2 3 4 show ?thesis by (intro conjI)
qed

text \<open>
  Claim C8 says that \<^verbatim>\<open>bprop\<close> and \<^verbatim>\<open>grads_wrt_params\<close> on a freshly constructed layer
  fail with an explicit "not initialized" error. On the layer \<^verbatim>\<open>BatchNormalizedLayer(3, 3)\<close>
  \<^verbatim>\<open>bprop\<close> raises the \<^verbatim>\<open>ValueError\<close> of unpacking the empty cache and
  \<^verbatim>\<open>grads_wrt_params\<close> the \<^verbatim>\<open>IndexError\<close> of \<^verbatim>\<open>self.cache[2]\<close>.
\<close>

theorem stale_cache_counterexample:
  "init 3 3 = Inr \<lparr>input_dim = 3, output_dim = 3, gamma = None, beta = None, cache = Empty\<rparr> \<and>
   bprop \<lparr>input_dim = 3, output_dim = 3, gamma = None, beta = None, cache = Empty\<rparr>
         [[1, 2, 3]] [[0, 0, 0]] [[1, 1, 1]] = Inl ValueError \<and>
   grads_wrt_params \<lparr>input_dim = 3, output_dim = 3, gamma = None, beta = None, cache = Empty\<rparr>
         [[1, 2, 3]] [[1, 1, 1]] = Inl IndexError \<and>
   bprop \<lparr>input_dim = 3, output_dim = 3, gamma = None, beta = None, cache = Empty\<rparr>
         [[1, 2, 3]] [[0, 0, 0]] [[1, 1, 1]] \<noteq> Inl NotInitializedError \<and>
   grads_wrt_params \<lparr>input_dim = 3, output_dim = 3, gamma = None, beta = None, cache = Empty\<rparr>
         [[1, 2, 3]] [[1, 1, 1]] \<noteq> Inl NotInitializedError"
  by (simp add: init_def bprop_def grads_wrt_params_def)

text \<open>
  Claim C8, amended. On a freshly constructed layer, before any \<^verbatim>\<open>fprop\<close>, \<^verbatim>\<open>bprop\<close> fails
  with \<^verbatim>\<open>ValueError\<close> and \<^verbatim>\<open>grads_wrt_params\<close> fails with \<^verbatim>\<open>IndexError\<close>, for all
  arguments: both fail on the missing cached values, neither with an error of its own.
\<close>

theorem stale_cache_errors:
  assumes "init i od = Inr l"
  shows "bprop l inputs outputs grads = Inl ValueError \<and>
         grads_wrt_params l inputs grads = Inl IndexError"
  using assms by (auto simp: init_def bprop_def grads_wrt_params_def)

text \<open>Claim C8, amended, on the layer \<^verbatim>\<open>BatchNormalizedLayer(3, 3)\<close>.\<close>

theorem stale_cache_errors_witness:
  "init 3 3 = Inr \<lparr>input_dim = 3, output_dim = 3, gamma = None, beta = None, cache = Empty\<rparr> \<and>
   bprop \<lparr>input_dim = 3, output_dim = 3, gamma = None, beta = None, cache = Empty\<rparr>
         [[1, 2, 3]] [[0, 0, 0]] [[1, 1, 1]] = Inl ValueError \<and>
   grads_wrt_params \<lparr>input_dim = 3, output_dim = 3, gamma = None, beta = None, cache = Empty\<rparr>
         [[1, 2, 3]] [[1, 1, 1]] = Inl IndexError"
proof -
  have i: "init 3 3 = Inr \<lparr>input_dim = 3, output_dim = 3, gamma = None, beta = None, cache = Empty\<rparr>"
    by (simp add: init_def)
  from i stale_cache_errors [OF i, of "[[1, 2, 3]]" "[[0, 0, 0]]" "[[1, 1, 1]]"]
  show ?thesis by (intro conjI) simp_all
qed

text \<open>
  Claim C9 says that the accessor returns \<open>[gamma, beta]\<close>. On the layer with
  \<^verbatim>\<open>gamma = [1]\<close> and \<^verbatim>\<open>beta = [0]\<close> the body of the first definition would return
  \<open>[[1], [0]]\<close>, but the call \<^verbatim>\<open>layer.params()\<close> reaches the second definition, which
  requires \<^verbatim>\<open>values\<close>: it raises \<^verbatim>\<open>TypeError\<close> and leaves the layer as it was.
\<close>

theorem params_accessor_shadowed:
  "params_first unit_layer = Inr [[1], [0]] \<and>
   params unit_layer [] = (Inl TypeError, unit_layer)"
  by (simp add: params_first_def params_def unit_layer_def)

end
